theory Spec2Isabelle
  imports Complex_Main
begin

section \<open>Python values\<close>

text \<open>
  A Python \<open>str\<close> is a sequence of Unicode code points; a character is modelled by
  its code point, so that \<open>len\<close> counts what Python counts.  ASCII literals are
  written with \<open>ascii\<close>, the others as lists of code points.
\<close>

type_synonym pychar = nat
type_synonym pystr = "pychar list"

definition ascii :: "string \<Rightarrow> pystr" where
  "ascii s = map of_char s"

text \<open>
  \<open>str.isspace\<close> on a single character: the code points of bidirectional class
  WS, B or S, and of category Zs.
\<close>

definition py_isspace :: "pychar \<Rightarrow> bool" where
  "py_isspace c \<longleftrightarrow>
     c \<in> set [9, 10, 11, 12, 13, 28, 29, 30, 31, 32, 133, 160, 5760,
              8192, 8193, 8194, 8195, 8196, 8197, 8198, 8199, 8200, 8201, 8202,
              8232, 8233, 8239, 8287, 12288]"

datatype py_error =
    ZeroDivisionError
  | FileNotFoundError
  | NotADirectoryError
  | IsADirectoryError
  | KeyError
  | TypeError
  | AttributeError
  | JSONDecodeError

text \<open>
  \<open>xs[start:stop]\<close> on a list, for any two integers: a negative index counts
  from the end, and both are clipped to the list.
\<close>

definition slice_index :: "int \<Rightarrow> int \<Rightarrow> nat" where
  "slice_index n i = nat (if i < 0 then max 0 (n + i) else min n i)"

definition py_slice :: "'a list \<Rightarrow> int \<Rightarrow> int \<Rightarrow> 'a list" where
  "py_slice xs start stop =
     (let n = int (length xs);
          lo = slice_index n start;
          hi = slice_index n stop
      in take (hi - lo) (drop lo xs))"

text \<open>\<open>range(n)\<close> for an integer \<open>n\<close>: empty when \<open>n \<le> 0\<close>.\<close>

definition py_range :: "int \<Rightarrow> int list" where
  "py_range n = map int [0..<nat n]"

text \<open>
  \<open>math.ceil(a / b)\<close> on two integers.  The quotient is a float in the source; it is
  taken as the exact real quotient here, which it is for the sizes a page layout has
  (below \<open>2 ^ 53\<close>).  The division by zero is raised by \<open>/\<close>.
\<close>

definition math_ceil_div :: "int \<Rightarrow> int \<Rightarrow> py_error + int" where
  "math_ceil_div a b =
     (if b = 0 then Inl ZeroDivisionError
      else Inr \<lceil>real_of_int a / real_of_int b\<rceil>)"

section \<open>The character stream\<close>

text \<open>
  \<open>layout_chars\<close>: the loop extends \<open>result\<close> by \<open>[ch] * repeat\<close> for each
  character; \<open>[ch] * repeat\<close> is empty for \<open>repeat \<le> 0\<close>.
\<close>

definition layout_chars :: "'a list \<Rightarrow> int \<Rightarrow> 'a list" where
  "layout_chars chars repeat =
     foldl (\<lambda>result ch. result @ replicate (nat repeat) ch) [] chars"

text \<open>
  The list \<open>chars\<close> of \<open>generate_multi_page_images\<close> after the repetition: the
  text without its whitespace, each character repeated.
\<close>

definition character_stream :: "pystr \<Rightarrow> int \<Rightarrow> pystr" where
  "character_stream text repeat_each =
     layout_chars (filter (\<lambda>c. \<not> py_isspace c) text) repeat_each"

section \<open>Pagination\<close>

definition demo_rows_per_page :: "int \<Rightarrow> bool \<Rightarrow> int" where
  "demo_rows_per_page rows blank_row_after_each =
     (if blank_row_after_each then \<lceil>real_of_int rows / 2\<rceil> else rows)"

definition page_capacity :: "int \<Rightarrow> int \<Rightarrow> bool \<Rightarrow> int" where
  "page_capacity cols rows blank_row_after_each =
     cols * demo_rows_per_page rows blank_row_after_each"

definition total_pages :: "nat \<Rightarrow> int \<Rightarrow> py_error + int" where
  "total_pages len capacity =
     (case math_ceil_div (int len) capacity of
        Inl e \<Rightarrow> Inl e
      | Inr q \<Rightarrow> Inr (max 1 q))"

text \<open>
  The tail filling of one page: a chunk that is not empty and shorter than the capacity
  is completed with its last character.
\<close>

definition fill_page :: "bool \<Rightarrow> int \<Rightarrow> 'a list \<Rightarrow> 'a list" where
  "fill_page fill_last_page capacity page_chars =
     (if fill_last_page \<and> int (length page_chars) < capacity \<and> page_chars \<noteq> []
      then page_chars @
           replicate (nat (capacity - int (length page_chars))) (last page_chars)
      else page_chars)"

text \<open>The characters of page \<open>page_idx\<close>: the body of the page loop before rendering.\<close>

definition page_chars_at :: "'a list \<Rightarrow> int \<Rightarrow> bool \<Rightarrow> int \<Rightarrow> 'a list" where
  "page_chars_at chars capacity fill_last_page page_idx =
     (let start = page_idx * capacity;
          stop = start + capacity;
          page_chars = py_slice chars start stop
      in fill_page fill_last_page capacity page_chars)"

text \<open>
  The paginator: the chunks that \<open>generate_multi_page_images\<close> hands to the page
  composer, in page order.  An empty stream gives no page; a capacity of zero raises in
  the computation of the page count, before any page is cut.
\<close>

definition paginate ::
  "pystr \<Rightarrow> int \<Rightarrow> int \<Rightarrow> int \<Rightarrow> bool \<Rightarrow> bool \<Rightarrow> py_error + pystr list" where
  "paginate text cols rows repeat_each fill_last_page blank_row_after_each =
     (if filter (\<lambda>c. \<not> py_isspace c) text = [] then Inr []
      else
        let chars = character_stream text repeat_each;
            capacity = page_capacity cols rows blank_row_after_each
        in case total_pages (length chars) capacity of
             Inl e \<Rightarrow> Inl e
           | Inr n \<Rightarrow>
               Inr (map (page_chars_at chars capacity fill_last_page) (py_range n)))"

section \<open>Colours and tracing depth\<close>

type_synonym rgb = "int \<times> int \<times> int"
type_synonym rgba = "int \<times> int \<times> int \<times> int"

text \<open>
  The colour names of the form are Chinese words: \<open>[32511, 33394]\<close> is "green",
  \<open>[32418, 33394]\<close> is "red".  Any other name, "black" included, takes the default.
\<close>

definition get_grid_color :: "pystr \<Rightarrow> rgb" where
  "get_grid_color name =
     (if name = [32511, 33394] then (0, 160, 0)
      else if name = [32418, 33394] then (200, 0, 0)
      else (0, 0, 0))"

definition get_text_color :: "pystr \<Rightarrow> rgb" where
  "get_text_color name =
     (if name = [32511, 33394] then (0, 160, 0)
      else if name = [32418, 33394] then (200, 0, 0)
      else (0, 0, 0))"

text \<open>
  The dictionary of \<open>get_demo_alpha\<close>, in the order of the source: very deep, deep,
  rather deep, slightly light, medium, very light, white (invisible), hollow.
\<close>

definition demo_alpha_mapping :: "(pystr \<times> int) list" where
  "demo_alpha_mapping =
     [([38750, 24120, 28145], 220),
      ([28145], 190),
      ([36739, 28145], 160),
      ([30053, 27973], 130),
      ([36866, 20013], 110),
      ([38750, 24120, 27973], 80),
      ([30333, 33394, 65288, 19981, 21487, 35265, 65289], 0),
      ([31354, 33455], 200)]"

definition get_demo_alpha :: "pystr \<Rightarrow> int" where
  "get_demo_alpha level =
     (case map_of demo_alpha_mapping level of Some a \<Rightarrow> a | None \<Rightarrow> 110)"

section \<open>Grid decoration\<close>

text \<open>
  A drawing surface is modelled by the primitives drawn on it, in the order of the calls:
  \<open>Rectangle x0 y0 x1 y1 outline width\<close> is
  \<open>draw.rectangle([x0, y0, x1, y1], outline=..., width=...)\<close> and
  \<open>Line x0 y0 x1 y1 fill width\<close> is \<open>draw.line([x0, y0, x1, y1], fill=..., width=...)\<close>.
  Each grid function returns the primitives it draws.  \<open>//\<close> is the floor division,
  as \<open>div\<close> on \<open>int\<close> is.
\<close>

datatype draw_op =
    Rectangle int int int int rgb int
  | Line int int int int rgb int

definition draw_tianzige :: "int \<Rightarrow> int \<Rightarrow> int \<Rightarrow> rgb \<Rightarrow> draw_op list" where
  "draw_tianzige x y sz color =
     (let x2 = x + sz; y2 = y + sz
      in [Rectangle x y x2 y2 color 2,
          Line (x + sz div 2) y (x + sz div 2) y2 color 1,
          Line x (y + sz div 2) x2 (y + sz div 2) color 1])"

definition draw_mizige :: "int \<Rightarrow> int \<Rightarrow> int \<Rightarrow> rgb \<Rightarrow> draw_op list" where
  "draw_mizige x y sz color =
     (let x2 = x + sz; y2 = y + sz
      in [Rectangle x y x2 y2 color 2,
          Line x y x2 y2 color 1,
          Line x2 y x y2 color 1,
          Line (x + sz div 2) y (x + sz div 2) y2 color 1,
          Line x (y + sz div 2) x2 (y + sz div 2) color 1])"

definition draw_huigongge :: "int \<Rightarrow> int \<Rightarrow> int \<Rightarrow> rgb \<Rightarrow> draw_op list" where
  "draw_huigongge x y sz color =
     (let x2 = x + sz; y2 = y + sz;
          margin = sz div 6;
          margin2 = margin * 2
      in [Rectangle x y x2 y2 color 2,
          Rectangle (x + margin) (y + margin) (x2 - margin) (y2 - margin) color 1,
          Rectangle (x + margin2) (y + margin2) (x2 - margin2) (y2 - margin2) color 1])"

definition draw_square :: "int \<Rightarrow> int \<Rightarrow> int \<Rightarrow> rgb \<Rightarrow> draw_op list" where
  "draw_square x y sz color =
     (let x2 = x + sz; y2 = y + sz
      in [Rectangle x y x2 y2 color 2])"

definition draw_jiugongge :: "int \<Rightarrow> int \<Rightarrow> int \<Rightarrow> rgb \<Rightarrow> draw_op list" where
  "draw_jiugongge x y sz color =
     (let x2 = x + sz; y2 = y + sz;
          step = sz div 3
      in [Rectangle x y x2 y2 color 2,
          Line (x + step) y (x + step) y2 color 1,
          Line (x + 2 * step) y (x + 2 * step) y2 color 1,
          Line x (y + step) x2 (y + step) color 1,
          Line x (y + 2 * step) x2 (y + 2 * step) color 1])"

text \<open>
  The grid names, in the order of the \<open>if\<close> chain: tianzige (field grid), mizige (rice
  grid), huigongge (nested boxes), fangge (plain box), jiugongge (nine boxes); any other
  name draws the plain box.  The parameter \<open>sz\<close> is the \<open>size\<close> of the source.
\<close>

definition draw_grid :: "int \<Rightarrow> int \<Rightarrow> int \<Rightarrow> pystr \<Rightarrow> rgb \<Rightarrow> draw_op list" where
  "draw_grid x y sz grid_type color =
     (if grid_type = [30000, 23383, 26684] then draw_tianzige x y sz color
      else if grid_type = [31859, 23383, 26684] then draw_mizige x y sz color
      else if grid_type = [22238, 23467, 26684] then draw_huigongge x y sz color
      else if grid_type = [26041, 26684] then draw_square x y sz color
      else if grid_type = [20061, 23467, 26684] then draw_jiugongge x y sz color
      else draw_square x y sz color)"

text \<open>
  The nested-box style as the specification words it: the outer rectangle and two insets
  at the margins \<open>size / 6\<close> and \<open>size / 3\<close>, the quotients taken as floor divisions
  since the coordinates are pixels.  It is compared with \<open>draw_huigongge\<close> below.
\<close>

definition nested_box_spec :: "int \<Rightarrow> int \<Rightarrow> int \<Rightarrow> rgb \<Rightarrow> draw_op list" where
  "nested_box_spec x y sz color =
     [Rectangle x y (x + sz) (y + sz) color 2,
      Rectangle (x + sz div 6) (y + sz div 6)
                (x + sz - sz div 6) (y + sz - sz div 6) color 1,
      Rectangle (x + sz div 3) (y + sz div 3)
                (x + sz - sz div 3) (y + sz - sz div 3) color 1]"

section \<open>The page composer\<close>

text \<open>
  A page image is modelled by its two layers: the primitives drawn on the white page and
  the glyphs drawn on the overlay, which starts fully transparent.  \<open>Glyph cx cy ch fill\<close>
  is \<open>text_draw.text((cx, cy), ch, font=font, fill=fill, anchor="mm")\<close>.  The font handle
  selects the glyph shapes only and is left out; \<open>load_font\<close>, which supplies it, is
  modelled below and never raises.  The overlay is composited over the page at the end,
  so a page whose overlay received no glyph shows the grid layer alone.
\<close>

datatype text_op = Glyph int int pychar rgba

record image =
  grid_layer :: "draw_op list"
  text_layer :: "text_op list"

definition PAGE_WIDTH :: int where
  "PAGE_WIDTH = 2480"

definition PAGE_HEIGHT :: int where
  "PAGE_HEIGHT = 3508"

text \<open>The state of the cell loop: the index of the next character and the two layers.\<close>

record page_state =
  index :: nat
  page_img :: "draw_op list"
  page_text :: "text_op list"

text \<open>The body of the loop over the cells, for the cell in row \<open>r\<close> and column \<open>c\<close>.\<close>

definition draw_cell ::
  "pystr \<Rightarrow> pystr \<Rightarrow> rgb \<Rightarrow> rgb \<Rightarrow> int \<Rightarrow> int \<Rightarrow> int \<Rightarrow> int \<Rightarrow> int \<Rightarrow> bool \<Rightarrow> bool \<Rightarrow>
   page_state \<Rightarrow> int \<times> int \<Rightarrow> page_state" where
  "draw_cell page_chars grid_type grid_color text_color alpha cell_size offset_x offset_y
     max_demo_cells show_demo blank_row_after_each st rc =
     (let r = fst rc; c = snd rc;
          x = offset_x + c * cell_size;
          y = offset_y + r * cell_size;
          st = st\<lparr>page_img := page_img st @ draw_grid x y cell_size grid_type grid_color\<rparr>;
          is_demo_row = (if blank_row_after_each then r mod 2 = 0 else True)
      in if show_demo \<and> is_demo_row \<and> index st < length page_chars
            \<and> int (index st) < max_demo_cells
         then
           let ch = page_chars ! index st;
               offset_y_char = 0;
               cx = x + cell_size div 2;
               cy = y + cell_size div 2 + offset_y_char
           in st\<lparr>index := index st + 1,
                 page_text := page_text st @
                   [Glyph cx cy ch (fst text_color, fst (snd text_color),
                                    snd (snd text_color), alpha)]\<rparr>
         else st)"

text \<open>The cells in the order of the two nested loops: row by row.\<close>

definition page_cells :: "int \<Rightarrow> int \<Rightarrow> (int \<times> int) list" where
  "page_cells rows cols =
     concat (map (\<lambda>r. map (\<lambda>c. (r, c)) (py_range cols)) (py_range rows))"

text \<open>
  \<open>generate_single_page_image\<close>.  The two floor divisions of the cell size raise on a
  zero divisor, \<open>cols\<close> first.
\<close>

definition generate_single_page_image ::
  "pystr \<Rightarrow> pystr \<Rightarrow> pystr \<Rightarrow> pystr \<Rightarrow> pystr \<Rightarrow> int \<Rightarrow> int \<Rightarrow> pystr \<Rightarrow> bool \<Rightarrow> bool \<Rightarrow>
   py_error + image" where
  "generate_single_page_image page_chars grid_type grid_color_name text_color_name
     demo_level cols rows font_path show_demo blank_row_after_each =
     (let grid_color = get_grid_color grid_color_name;
          text_color = get_text_color text_color_name;
          alpha = get_demo_alpha demo_level;
          margin_x = 150;
          margin_y = 250;
          usable_width = PAGE_WIDTH - margin_x * 2;
          usable_height = PAGE_HEIGHT - margin_y * 2
      in if cols = 0 \<or> rows = 0 then Inl ZeroDivisionError
         else
           let cell_size = min (usable_width div cols) (usable_height div rows);
               offset_x = (PAGE_WIDTH - cell_size * cols) div 2;
               offset_y = (PAGE_HEIGHT - cell_size * rows) div 2;
               max_demo_cells = cols * demo_rows_per_page rows blank_row_after_each;
               st = foldl (draw_cell page_chars grid_type grid_color text_color alpha
                             cell_size offset_x offset_y max_demo_cells show_demo
                             blank_row_after_each)
                          \<lparr>index = 0, page_img = [], page_text = []\<rparr>
                          (page_cells rows cols)
           in Inr \<lparr>grid_layer = page_img st, text_layer = page_text st\<rparr>)"

section \<open>Generation and export\<close>

text \<open>A loop that appends one result per element and stops at the first raise.\<close>

fun collect_pages :: "('a \<Rightarrow> py_error + 'b) \<Rightarrow> 'a list \<Rightarrow> py_error + 'b list" where
  "collect_pages f [] = Inr []"
| "collect_pages f (x # xs) =
     (case f x of
        Inl e \<Rightarrow> Inl e
      | Inr y \<Rightarrow> (case collect_pages f xs of Inl e \<Rightarrow> Inl e | Inr ys \<Rightarrow> Inr (y # ys)))"

definition generate_multi_page_images ::
  "pystr \<Rightarrow> pystr \<Rightarrow> pystr \<Rightarrow> pystr \<Rightarrow> pystr \<Rightarrow> int \<Rightarrow> int \<Rightarrow> int \<Rightarrow> pystr \<Rightarrow>
   bool \<Rightarrow> bool \<Rightarrow> bool \<Rightarrow> py_error + image list" where
  "generate_multi_page_images text grid_type grid_color_name text_color_name demo_level
     cols rows repeat_each font_path show_demo fill_last_page blank_row_after_each =
     (let chars = filter (\<lambda>c. \<not> py_isspace c) text
      in if chars = [] then Inr []
         else
           let chars = layout_chars chars repeat_each;
               capacity = cols * demo_rows_per_page rows blank_row_after_each
           in case total_pages (length chars) capacity of
                Inl e \<Rightarrow> Inl e
              | Inr n \<Rightarrow>
                  collect_pages
                    (\<lambda>page_idx.
                       generate_single_page_image
                         (page_chars_at chars capacity fill_last_page page_idx)
                         grid_type grid_color_name text_color_name demo_level cols rows
                         font_path show_demo blank_row_after_each)
                    (py_range n))"

text \<open>
  \<open>images_to_pdf\<close>.  The conversion to RGB and the PDF writer of the imaging library
  are parameters; the bytes are numbers below 256.
\<close>

definition images_to_pdf ::
  "('img \<Rightarrow> 'img) \<Rightarrow> ('img \<Rightarrow> 'img list \<Rightarrow> nat list) \<Rightarrow> 'img list \<Rightarrow> nat list" where
  "images_to_pdf convert_rgb save_pdf images =
     (if images = [] then []
      else
        let rgb_imgs = map convert_rgb images;
            first = hd rgb_imgs;
            rest = tl rgb_imgs
        in save_pdf first rest)"

section \<open>The font resolver\<close>

text \<open>
  The imaging library and the file system behind \<open>load_font\<close> are a parameter:
  \<open>truetype env path sz\<close> is \<open>ImageFont.truetype(path, size)\<close> and is \<open>None\<close> where the
  call raises; \<open>getname env font\<close> is \<open>font.getname()\<close>, \<open>None\<close> where it raises;
  \<open>path_str env path\<close> is \<open>str(Path(path))\<close>; \<open>load_default env\<close> is the font built
  into the library, and \<open>default_getname env\<close> is its \<open>getname()\<close>, \<open>None\<close> when that
  font has no such attribute.  The cache decorator returns what the first call with the
  same arguments returned, which is the value computed here for a fixed \<open>env\<close>.
\<close>

record 'font font_env =
  truetype :: "pystr \<Rightarrow> int \<Rightarrow> 'font option"
  getname :: "'font \<Rightarrow> (pystr \<times> pystr) option"
  path_str :: "pystr \<Rightarrow> pystr"
  load_default :: "'font"
  default_getname :: "(pystr \<times> pystr) option"

text \<open>The dictionary \<open>info\<close>, with its four keys path, family, style and source.\<close>

record font_info =
  info_path :: pystr
  info_family :: pystr
  info_style :: pystr
  info_source :: pystr

text \<open>
  \<open>try_path\<close>: everything in the \<open>try\<close> block that raises gives \<open>(None, None)\<close>,
  which is \<open>None\<close> here.  A font object is always true in a condition.
\<close>

definition try_path ::
  "'font font_env \<Rightarrow> int \<Rightarrow> pystr \<Rightarrow> pystr \<Rightarrow> ('font \<times> font_info) option" where
  "try_path env sz path source_label =
     (case truetype env path sz of
        None \<Rightarrow> None
      | Some font \<Rightarrow>
          (case getname env font of
             None \<Rightarrow> None
           | Some (family, style) \<Rightarrow>
               Some (font, \<lparr>info_path = path_str env path, info_family = family,
                            info_style = style, info_source = source_label\<rparr>)))"

text \<open>The source labels: "font chosen by the user", "fallback font (name)", "Pillow default font".\<close>

definition user_label :: pystr where
  "user_label = [29992, 25143, 36873, 25321, 23383, 20307]"

definition fallback_label :: "pystr \<Rightarrow> pystr" where
  "fallback_label fb = [22238, 36864, 23383, 20307, 65288] @ fb @ [65289]"

definition default_label :: pystr where
  "default_label = [80, 105, 108, 108, 111, 119, 32, 40664, 35748, 23383, 20307]"

definition default_path_label :: pystr where
  "default_path_label =
     [80, 105, 108, 108, 111, 119, 32, 20869, 32622, 40664, 35748, 23383, 20307,
      65288, 21487, 33021, 19981, 25903, 25345, 20013, 25991, 65289]"

text \<open>The three names of the list \<open>fallbacks\<close>: simkai.ttf, simhei.ttf, msyh.ttc.\<close>

definition simkai :: pystr where
  "simkai = [115, 105, 109, 107, 97, 105, 46, 116, 116, 102]"

definition simhei :: pystr where
  "simhei = [115, 105, 109, 104, 101, 105, 46, 116, 116, 102]"

definition msyh :: pystr where
  "msyh = [109, 115, 121, 104, 46, 116, 116, 99]"

definition fallbacks :: "pystr list" where
  "fallbacks = [simkai, simhei, msyh]"

text \<open>The loop over the fallbacks: the first one that loads is returned.\<close>

fun try_fallbacks ::
  "'font font_env \<Rightarrow> int \<Rightarrow> pystr list \<Rightarrow> ('font \<times> font_info) option" where
  "try_fallbacks env sz [] = None"
| "try_fallbacks env sz (fb # fbs) =
     (case try_path env sz fb (fallback_label fb) of
        Some r \<Rightarrow> Some r
      | None \<Rightarrow> try_fallbacks env sz fbs)"

definition load_font :: "'font font_env \<Rightarrow> pystr \<Rightarrow> int \<Rightarrow> 'font \<times> font_info" where
  "load_font env font_path sz =
     (case (if font_path \<noteq> [] then try_path env sz font_path user_label else None) of
        Some r \<Rightarrow> r
      | None \<Rightarrow>
          (case try_fallbacks env sz fallbacks of
             Some r \<Rightarrow> r
           | None \<Rightarrow>
               (let font = load_default env;
                    name = (case default_getname env of
                              Some n \<Rightarrow> n
                            | None \<Rightarrow> (default_label, [82, 101, 103, 117, 108, 97, 114]))
                in (font, \<lparr>info_path = default_path_label, info_family = fst name,
                           info_style = snd name, info_source = default_label\<rparr>))))"

section \<open>The corpus loader\<close>

text \<open>
  A parsed JSON value.  The keys of an object are distinct after parsing.  Numbers are
  never inspected by the loader.
\<close>

datatype json =
    JNull
  | JBool bool
  | JNum int
  | JStr pystr
  | JArr "json list"
  | JObj "(pystr \<times> json) list"

text \<open>
  What a path names: a file, whose content parses as JSON or does not (\<open>None\<close>), or a
  directory with its entries.  A path that names nothing is not in the file system.
\<close>

datatype fs_node =
    File "json option"
  | Dir "pystr list"

text \<open>
  The surroundings of the loader: the file system, and \<open>str()\<close> on the JSON values that
  are neither strings nor lists.
\<close>

record loader_env =
  fs :: "pystr \<Rightarrow> fs_node option"
  py_str :: "json \<Rightarrow> pystr"

text \<open>
  One entry of the dataset registry: its path and tag, and its exclusion list when the
  entry has the key.
\<close>

record dataset_config =
  ds_path :: pystr
  ds_tag :: pystr
  ds_excludes :: "pystr list option"

record plain_data_loader =
  top_level_path :: pystr
  datasets :: "pystr \<Rightarrow> dataset_config option"

text \<open>\<open>os.path.join\<close> on two components, with \<open>/\<close> (code point 47) as the separator.\<close>

definition os_path_join :: "pystr \<Rightarrow> pystr \<Rightarrow> pystr" where
  "os_path_join a b =
     (if b \<noteq> [] \<and> hd b = 47 then b
      else if a = [] \<or> last a = 47 then a @ b
      else a @ [47] @ b)"

definition isfile :: "loader_env \<Rightarrow> pystr \<Rightarrow> bool" where
  "isfile env p = (case fs env p of Some (File content) \<Rightarrow> True | _ \<Rightarrow> False)"

definition listdir :: "loader_env \<Rightarrow> pystr \<Rightarrow> py_error + pystr list" where
  "listdir env p =
     (case fs env p of
        None \<Rightarrow> Inl FileNotFoundError
      | Some (File content) \<Rightarrow> Inl NotADirectoryError
      | Some (Dir names) \<Rightarrow> Inr names)"

text \<open>\<open>open\<close> followed by \<open>json.load\<close>.\<close>

definition load_json :: "loader_env \<Rightarrow> pystr \<Rightarrow> py_error + json" where
  "load_json env p =
     (case fs env p of
        None \<Rightarrow> Inl FileNotFoundError
      | Some (Dir names) \<Rightarrow> Inl IsADirectoryError
      | Some (File None) \<Rightarrow> Inl JSONDecodeError
      | Some (File (Some data)) \<Rightarrow> Inr data)"

text \<open>What a \<open>for\<close> loop over a JSON value visits.\<close>

definition py_iter :: "json \<Rightarrow> py_error + json list" where
  "py_iter data =
     (case data of
        JArr xs \<Rightarrow> Inr xs
      | JObj kvs \<Rightarrow> Inr (map (\<lambda>kv. JStr (fst kv)) kvs)
      | JStr s \<Rightarrow> Inr (map (\<lambda>c. JStr [c]) s)
      | _ \<Rightarrow> Inl TypeError)"

text \<open>\<open>poem.get(key, default)\<close>: only a dictionary has the method.\<close>

definition dict_get :: "json \<Rightarrow> pystr \<Rightarrow> json \<Rightarrow> py_error + json" where
  "dict_get poem key dflt =
     (case poem of
        JObj kvs \<Rightarrow> Inr (case map_of kvs key of Some v \<Rightarrow> v | None \<Rightarrow> dflt)
      | _ \<Rightarrow> Inl AttributeError)"

definition py_strip :: "pystr \<Rightarrow> pystr" where
  "py_strip s = rev (dropWhile py_isspace (rev (dropWhile py_isspace s)))"

fun py_join :: "pystr \<Rightarrow> pystr list \<Rightarrow> pystr" where
  "py_join sep [] = []"
| "py_join sep [x] = x"
| "py_join sep (x # y # ys) = x @ sep @ py_join sep (y # ys)"

text \<open>A value inside an f-string: a string as it is, anything else through \<open>str()\<close>.\<close>

definition format_value :: "loader_env \<Rightarrow> json \<Rightarrow> pystr" where
  "format_value env v = (case v of JStr s \<Rightarrow> s | _ \<Rightarrow> py_str env v)"

text \<open>The text of one poem from its paragraphs field: the \<open>isinstance\<close> chain.\<close>

definition poem_text :: "loader_env \<Rightarrow> json \<Rightarrow> pystr" where
  "poem_text env paras =
     (case paras of
        JStr s \<Rightarrow> py_strip s
      | JArr ps \<Rightarrow>
          py_join [10]
            (concat (map (\<lambda>p. case p of
                                 JStr s \<Rightarrow> if py_strip s \<noteq> [] then [s] else []
                               | _ \<Rightarrow> []) ps))
      | _ \<Rightarrow> py_str env paras)"

text \<open>
  The header line of a poem: title, rhythmic, chapter and section, a middle dot (code
  point 183) and the author, each empty when the poem has no such key.  It is built for
  a poem that \<open>dict_get\<close> accepted, a dictionary.
\<close>

definition poem_field :: "loader_env \<Rightarrow> json \<Rightarrow> string \<Rightarrow> pystr" where
  "poem_field env poem key =
     (case dict_get poem (ascii key) (JStr []) of
        Inr v \<Rightarrow> format_value env v
      | Inl e \<Rightarrow> [])"

definition poem_title :: "loader_env \<Rightarrow> json \<Rightarrow> pystr" where
  "poem_title env poem =
     poem_field env poem ''title'' @ poem_field env poem ''rhythmic''
     @ poem_field env poem ''chapter'' @ poem_field env poem ''section''
     @ [183] @ poem_field env poem ''author''"

text \<open>The loop of \<open>collect_from_file\<close> over the poems of one file; \<open>texts\<close> is the list it extends.\<close>

fun collect_poems :: "loader_env \<Rightarrow> pystr \<Rightarrow> json list \<Rightarrow> pystr list \<Rightarrow> py_error + pystr list" where
  "collect_poems env tag [] texts = Inr texts"
| "collect_poems env tag (poem # rest) texts =
     (case dict_get poem tag (JArr []) of
        Inl e \<Rightarrow> Inl e
      | Inr paras \<Rightarrow>
          (let text = poem_text env paras
           in if text \<noteq> []
              then collect_poems env tag rest (texts @ [poem_title env poem @ [10] @ text])
              else collect_poems env tag rest texts))"

definition collect_from_file ::
  "loader_env \<Rightarrow> pystr \<Rightarrow> pystr \<Rightarrow> pystr list \<Rightarrow> py_error + pystr list" where
  "collect_from_file env tag filepath texts =
     (case load_json env filepath of
        Inl e \<Rightarrow> Inl e
      | Inr data \<Rightarrow>
          (case py_iter data of
             Inl e \<Rightarrow> Inl e
           | Inr poems \<Rightarrow> collect_poems env tag poems texts))"

text \<open>The loop over the entries of a dataset directory, the excluded names skipped.\<close>

fun collect_from_dir ::
  "loader_env \<Rightarrow> pystr \<Rightarrow> pystr \<Rightarrow> pystr list \<Rightarrow> pystr list \<Rightarrow> pystr list \<Rightarrow>
   py_error + pystr list" where
  "collect_from_dir env tag full_path excludes [] texts = Inr texts"
| "collect_from_dir env tag full_path excludes (filename # rest) texts =
     (if filename \<in> set excludes
      then collect_from_dir env tag full_path excludes rest texts
      else
        (case collect_from_file env tag (os_path_join full_path filename) texts of
           Inl e \<Rightarrow> Inl e
         | Inr texts' \<Rightarrow> collect_from_dir env tag full_path excludes rest texts'))"

text \<open>
  The line printed for a dataset that the registry does not hold: the identifier followed
  by " is not included in datas.json as a dataset".
\<close>

definition not_included_message :: "pystr \<Rightarrow> pystr" where
  "not_included_message target =
     target @ ascii '' is not included in datas.json as a dataset''"

text \<open>
  \<open>poems_as_text\<close>: the result, a raise or the list of texts, and the lines printed.
\<close>

definition poems_as_text ::
  "plain_data_loader \<Rightarrow> loader_env \<Rightarrow> pystr \<Rightarrow> (py_error + pystr list) \<times> pystr list" where
  "poems_as_text self env target =
     (case datasets self target of
        None \<Rightarrow> (Inr [], [not_included_message target])
      | Some configs \<Rightarrow>
          (let tag = ds_tag configs;
               full_path = os_path_join (top_level_path self) (ds_path configs)
           in if isfile env full_path
              then (collect_from_file env tag full_path [], [])
              else
                (case listdir env full_path of
                   Inl e \<Rightarrow> (Inl e, [])
                 | Inr subpaths \<Rightarrow>
                     (collect_from_dir env tag full_path
                        (case ds_excludes configs of Some ex \<Rightarrow> ex | None \<Rightarrow> [])
                        subpaths [], []))))"

text \<open>
  \<open>body_extractor\<close>.  \<open>poem[tag]\<close> raises on a value that is not a dictionary and on a
  missing key, and \<open>body += value\<close> appends what a loop over the value visits.  The
  result \<open>None\<close> is Python's \<open>None\<close>.
\<close>

definition subscript :: "json \<Rightarrow> pystr \<Rightarrow> py_error + json" where
  "subscript poem key =
     (case poem of
        JObj kvs \<Rightarrow> (case map_of kvs key of Some v \<Rightarrow> Inr v | None \<Rightarrow> Inl KeyError)
      | _ \<Rightarrow> Inl TypeError)"

fun extend_body :: "pystr \<Rightarrow> json list \<Rightarrow> json list \<Rightarrow> py_error + json list" where
  "extend_body tag [] body = Inr body"
| "extend_body tag (poem # rest) body =
     (case subscript poem tag of
        Inl e \<Rightarrow> Inl e
      | Inr v \<Rightarrow>
          (case py_iter v of
             Inl e \<Rightarrow> Inl e
           | Inr items \<Rightarrow> extend_body tag rest (body @ items)))"

definition body_from_file ::
  "loader_env \<Rightarrow> pystr \<Rightarrow> pystr \<Rightarrow> json list \<Rightarrow> py_error + json list" where
  "body_from_file env tag filepath body =
     (case load_json env filepath of
        Inl e \<Rightarrow> Inl e
      | Inr data \<Rightarrow>
          (case py_iter data of
             Inl e \<Rightarrow> Inl e
           | Inr poems \<Rightarrow> extend_body tag poems body))"

fun body_from_dir ::
  "loader_env \<Rightarrow> dataset_config \<Rightarrow> pystr \<Rightarrow> pystr list \<Rightarrow> json list \<Rightarrow>
   py_error + json list" where
  "body_from_dir env configs full_path [] body = Inr body"
| "body_from_dir env configs full_path (filename # rest) body =
     (case ds_excludes configs of
        None \<Rightarrow> Inl KeyError
      | Some excludes \<Rightarrow>
          if filename \<in> set excludes
          then body_from_dir env configs full_path rest body
          else
            (case body_from_file env (ds_tag configs) (os_path_join full_path filename) body of
               Inl e \<Rightarrow> Inl e
             | Inr body' \<Rightarrow> body_from_dir env configs full_path rest body'))"

definition body_extractor ::
  "plain_data_loader \<Rightarrow> loader_env \<Rightarrow> pystr \<Rightarrow>
   (py_error + json list option) \<times> pystr list" where
  "body_extractor self env target =
     (case datasets self target of
        None \<Rightarrow> (Inr None, [not_included_message target])
      | Some configs \<Rightarrow>
          (let tag = ds_tag configs;
               full_path = os_path_join (top_level_path self) (ds_path configs)
           in if isfile env full_path
              then (map_sum id Some (body_from_file env tag full_path []), [])
              else
                (case listdir env full_path of
                   Inl e \<Rightarrow> (Inl e, [])
                 | Inr subpaths \<Rightarrow>
                     (map_sum id Some (body_from_dir env configs full_path subpaths []),
                      []))))"

section \<open>Example surroundings\<close>

text \<open>
  Whether a path gives a font: \<open>truetype\<close> returns one and its name can be read, which
  is when \<open>try_path\<close> succeeds.
\<close>

definition font_loads :: "'font font_env \<Rightarrow> int \<Rightarrow> pystr \<Rightarrow> bool" where
  "font_loads env sz path =
     (case truetype env path sz of
        None \<Rightarrow> False
      | Some font \<Rightarrow> getname env font \<noteq> None)"

text \<open>
  Two machines, with fonts numbered: one where only simhei.ttf can be opened, as font 7
  named Hei Regular, and one where no font file can be opened at all.  The built-in
  font is font 0 and has no \<open>getname\<close>.
\<close>

definition only_simhei_env :: "nat font_env" where
  "only_simhei_env =
     \<lparr>truetype = (\<lambda>path sz.
                    if path = simhei then Some 7 else None),
      getname = (\<lambda>font. Some ([72, 101, 105], [82, 101, 103, 117, 108, 97, 114])),
      path_str = (\<lambda>path. path),
      load_default = 0,
      default_getname = None\<rparr>"

definition no_font_env :: "nat font_env" where
  "no_font_env =
     \<lparr>truetype = (\<lambda>path sz. None),
      getname = (\<lambda>font. None),
      path_str = (\<lambda>path. path),
      load_default = 0,
      default_getname = None\<rparr>"

text \<open>
  A loader whose registry holds the one dataset tang, stored in tang.json under the top
  directory of the corpus, and two file systems: an empty one, where the corpus was
  never fetched, and one that holds the file with a single poem.
\<close>

definition example_loader :: plain_data_loader where
  "example_loader =
     \<lparr>top_level_path = ascii ''./chinese-poetry/'',
      datasets = (\<lambda>target.
                    if target = ascii ''tang''
                    then Some \<lparr>ds_path = ascii ''tang.json'',
                               ds_tag = ascii ''paragraphs'',
                               ds_excludes = None\<rparr>
                    else None)\<rparr>"

definition empty_env :: loader_env where
  "empty_env = \<lparr>fs = (\<lambda>p. None), py_str = (\<lambda>v. [])\<rparr>"

definition one_poem_env :: loader_env where
  "one_poem_env =
     \<lparr>fs = (\<lambda>p. if p = ascii ''./chinese-poetry/tang.json''
                  then Some (File (Some (JArr
                         [JObj [(ascii ''title'', JStr [84]),
                                (ascii ''author'', JStr [65]),
                                (ascii ''paragraphs'', JArr [JStr [97, 98], JStr [32], JStr [99]])]])))
                  else None),
      py_str = (\<lambda>v. [])\<rparr>"

section \<open>Properties of the character stream\<close>

lemma foldl_append_replicate:
  "foldl (\<lambda>result ch. result @ replicate k ch) acc chars =
     acc @ concat (map (replicate k) chars)"
  by (induction chars arbitrary: acc) simp_all

lemma layout_chars_concat:
  "layout_chars chars repeat = concat (map (replicate (nat repeat)) chars)"
  by (simp add: layout_chars_def foldl_append_replicate)

lemma length_concat_replicate:
  "length (concat (map (replicate k) xs)) = k * length xs"
  by (induction xs) simp_all

lemma ascii_AB: "ascii ''AB'' = [65, 66]"
  by (simp add: ascii_def)

lemma not_space_A_B: "\<not> py_isspace 65" "\<not> py_isspace 66"
  by (simp_all add: py_isspace_def)

text \<open>
  C4.  The character stream is the input text without its whitespace characters, each
  remaining character repeated \<open>repeat_each\<close> times in a row, in the order of the
  input; its length is \<open>repeat_each\<close> times the number of characters kept, and it
  holds no whitespace.  The text AB with three repetitions gives AAABBB, six characters.
\<close>

theorem character_stream_repeats:
  assumes "1 \<le> repeat_each"
  shows "character_stream text repeat_each =
           concat (map (replicate (nat repeat_each))
                       (filter (\<lambda>c. \<not> py_isspace c) text))
       \<and> int (length (character_stream text repeat_each)) =
           repeat_each * int (length (filter (\<lambda>c. \<not> py_isspace c) text))
       \<and> set (character_stream text repeat_each) = {c \<in> set text. \<not> py_isspace c}
       \<and> character_stream [65, 66] 3 = [65, 65, 65, 66, 66, 66]
       \<and> length (character_stream [65, 66] 3) = 6"
proof -
  let ?kept = "filter (\<lambda>c. \<not> py_isspace c) text"
  have eq: "character_stream text repeat_each =
              concat (map (replicate (nat repeat_each)) ?kept)"
    by (simp add: character_stream_def layout_chars_concat)
  have len: "int (length (character_stream text repeat_each)) =
               repeat_each * int (length ?kept)"
    using assms by (simp add: eq length_concat_replicate)
  have pos: "0 < nat repeat_each"
    using assms by simp
  have elems: "set (character_stream text repeat_each) = {c \<in> set text. \<not> py_isspace c}"
    using pos by (auto simp add: eq)
  have ex: "character_stream [65, 66] 3 = [65, 65, 65, 66, 66, 66]"
    by (simp add: character_stream_def layout_chars_concat not_space_A_B
        numeral_3_eq_3)
  from eq len elems ex show ?thesis
    by simp
qed

theorem character_stream_repeats_witness:
  "(1::int) \<le> 2
   \<and> character_stream [65, 32, 66, 10] 2 = [65, 65, 66, 66]
   \<and> length (character_stream [65, 32, 66, 10] 2) = 4"
proof -
  have h: "(1::int) \<le> 2" by simp
  have sp: "py_isspace 32" "py_isspace 10"
    by (simp_all add: py_isspace_def)
  from character_stream_repeats [OF h, of "[65, 32, 66, 10]"]
  have "character_stream [65, 32, 66, 10] 2 =
          concat (map (replicate (nat 2)) (filter (\<lambda>c. \<not> py_isspace c) [65, 32, 66, 10]))"
    by blast
  then have "character_stream [65, 32, 66, 10] 2 = [65, 65, 66, 66]"
    by (simp add: sp not_space_A_B numeral_2_eq_2)
  then show ?thesis by simp
qed

section \<open>Properties of the paginator\<close>


























text \<open>
  The page loop of \<open>generate_multi_page_images\<close> renders the chunks of \<open>paginate\<close>, in
  order, and raises where the paginator does.
\<close>

lemma collect_pages_map: "collect_pages f (map g xs) = collect_pages (\<lambda>x. f (g x)) xs"
  by (induction xs) (auto split: sum.splits)

lemma generate_multi_page_images_paginate:
  "generate_multi_page_images text grid_type grid_color_name text_color_name demo_level
     cols rows repeat_each font_path show_demo fill_last_page blank =
   (case paginate text cols rows repeat_each fill_last_page blank of
      Inl e \<Rightarrow> Inl e
    | Inr chunks \<Rightarrow>
        collect_pages
          (\<lambda>page_chars.
             generate_single_page_image page_chars grid_type grid_color_name
               text_color_name demo_level cols rows font_path show_demo blank)
          chunks)"
  by (simp add: generate_multi_page_images_def paginate_def character_stream_def
      page_capacity_def Let_def collect_pages_map split: sum.splits)








text \<open>
  C5.  A text whose characters are all whitespace, the empty text included, gives no
  chunk and no page, whatever the other arguments are, without raising; and the
  document exported from these pages is the empty byte string.
\<close>

theorem blank_text_no_pages:
  assumes "\<forall>c\<in>set text. py_isspace c"
  shows "paginate text cols rows repeat_each fill_last_page blank = Inr []
       \<and> (\<exists>images.
             generate_multi_page_images text grid_type grid_color_name text_color_name
               demo_level cols rows repeat_each font_path show_demo fill_last_page blank
             = Inr images
           \<and> images = []
           \<and> length (images_to_pdf convert_rgb save_pdf images) = 0)"
proof -
  have kept: "filter (\<lambda>c. \<not> py_isspace c) text = []"
    using assms by (simp add: filter_empty_conv)
  have pg: "paginate text cols rows repeat_each fill_last_page blank = Inr []"
    by (simp add: paginate_def kept)
  have gen: "generate_multi_page_images text grid_type grid_color_name text_color_name
               demo_level cols rows repeat_each font_path show_demo fill_last_page blank
             = Inr []"
    by (simp add: generate_multi_page_images_def kept)
  have pdf: "length (images_to_pdf convert_rgb save_pdf ([] :: image list)) = 0"
    by (simp add: images_to_pdf_def)
  from pg gen pdf show ?thesis by simp
qed

theorem blank_text_no_pages_witness:
  "py_isspace 32 \<and> py_isspace 10 \<and> py_isspace 12288
   \<and> paginate [32, 10, 12288] 0 0 3 True False = Inr []
   \<and> generate_multi_page_images [32, 10, 12288] [] [] [] [] 0 0 3 [] True True False = Inr []
   \<and> images_to_pdf id (\<lambda>first rest. [37, 80, 68, 70]) ([] :: image list) = []"
proof -
  have sp: "py_isspace 32" "py_isspace 10" "py_isspace 12288"
    by (simp_all add: py_isspace_def)
  then have h: "\<forall>c\<in>set [32, 10, 12288]. py_isspace c"
    by simp
  from blank_text_no_pages [OF h, of 0 0 3 True False "[]" "[]" "[]" "[]" "[]" True id
      "\<lambda>first rest. [37, 80, 68, 70]"]
  show ?thesis using sp by auto
qed

section \<open>Properties of the grid and of the page composer\<close>

text \<open>
  C10.  The grid colour and the text colour of a name are the same triple: green is
  (0, 160, 0), red is (200, 0, 0), and every other name, known or not, is black.
\<close>

theorem grid_and_text_colors_agree:
  "get_grid_color name = get_text_color name
   \<and> get_grid_color [32511, 33394] = (0, 160, 0)
   \<and> get_text_color [32511, 33394] = (0, 160, 0)
   \<and> get_grid_color [32418, 33394] = (200, 0, 0)
   \<and> get_text_color [32418, 33394] = (200, 0, 0)
   \<and> (name \<noteq> [32511, 33394] \<and> name \<noteq> [32418, 33394] \<longrightarrow>
          get_grid_color name = (0, 0, 0) \<and> get_text_color name = (0, 0, 0))"
  by (simp add: get_grid_color_def get_text_color_def)

theorem grid_and_text_colors_agree_witness:
  "[40657, 33394] \<noteq> [32511, 33394 :: nat] \<and> [40657, 33394] \<noteq> [32418, 33394 :: nat]
   \<and> get_grid_color [40657, 33394] = get_text_color [40657, 33394]
   \<and> get_grid_color [40657, 33394] = (0, 0, 0)
   \<and> get_text_color [40657, 33394] = (0, 0, 0)"
  using grid_and_text_colors_agree [of "[40657, 33394]"] by simp

text \<open>
  C7, as amended.  The nested-box style draws the outer rectangle, of width 2, and two
  inset rectangles of width 1 whose margins are the floor of a sixth of the size and
  twice that floor; the second margin is a third of the size when the size is a
  multiple of six, where the drawing is the one the specification words.
\<close>

theorem draw_huigongge_margins:
  "draw_huigongge x y sz color =
     [Rectangle x y (x + sz) (y + sz) color 2,
      Rectangle (x + sz div 6) (y + sz div 6)
                (x + sz - sz div 6) (y + sz - sz div 6) color 1,
      Rectangle (x + 2 * (sz div 6)) (y + 2 * (sz div 6))
                (x + sz - 2 * (sz div 6)) (y + sz - 2 * (sz div 6)) color 1]
   \<and> draw_grid x y sz [22238, 23467, 26684] color = draw_huigongge x y sz color
   \<and> (6 dvd sz \<longrightarrow> draw_huigongge x y sz color = nested_box_spec x y sz color)"
proof -
  have "2 * (sz div 6) = sz div 3" if "6 dvd sz"
  proof -
    from that obtain k where "sz = 6 * k" by (rule dvdE)
    then show ?thesis by simp
  qed
  then show ?thesis
    by (simp add: draw_huigongge_def draw_grid_def nested_box_spec_def Let_def
        mult.commute)
qed

theorem draw_huigongge_margins_witness:
  "(6::int) dvd 90
   \<and> draw_huigongge 10 20 90 (200, 0, 0) =
       [Rectangle 10 20 100 110 (200, 0, 0) 2,
        Rectangle 25 35 85 95 (200, 0, 0) 1,
        Rectangle 40 50 70 80 (200, 0, 0) 1]
   \<and> draw_huigongge 10 20 90 (200, 0, 0) = nested_box_spec 10 20 90 (200, 0, 0)"
  using draw_huigongge_margins [of 10 20 90 "(200, 0, 0)"] by auto

text \<open>
  The claim as stated fails for a cell of 214 pixels, the cell size of the default
  layout of ten columns and fourteen rows: the second inset is drawn at margin 70,
  twice the floor of 214 / 6, and a third of the size is 71.
\<close>

theorem draw_huigongge_not_third:
  "draw_huigongge 0 0 214 (0, 0, 0) =
     [Rectangle 0 0 214 214 (0, 0, 0) 2,
      Rectangle 35 35 179 179 (0, 0, 0) 1,
      Rectangle 70 70 144 144 (0, 0, 0) 1]
   \<and> nested_box_spec 0 0 214 (0, 0, 0) =
     [Rectangle 0 0 214 214 (0, 0, 0) 2,
      Rectangle 35 35 179 179 (0, 0, 0) 1,
      Rectangle 71 71 143 143 (0, 0, 0) 1]
   \<and> draw_huigongge 0 0 214 (0, 0, 0) \<noteq> nested_box_spec 0 0 214 (0, 0, 0)"
  by (simp add: draw_huigongge_def nested_box_spec_def Let_def)

lemma draw_cell_no_demo:
  "draw_cell page_chars grid_type grid_color text_color alpha cell_size offset_x offset_y
     max_demo_cells False blank st rc =
   st\<lparr>page_img := page_img st @
        draw_grid (offset_x + snd rc * cell_size) (offset_y + fst rc * cell_size)
          cell_size grid_type grid_color\<rparr>"
  by (simp add: draw_cell_def Let_def)

lemma foldl_draw_cell_no_demo:
  "foldl (draw_cell page_chars grid_type grid_color text_color alpha cell_size offset_x
            offset_y max_demo_cells False blank) st cells =
   st\<lparr>page_img := page_img st @
        concat (map (\<lambda>rc. draw_grid (offset_x + snd rc * cell_size)
                              (offset_y + fst rc * cell_size) cell_size grid_type
                              grid_color) cells)\<rparr>"
  by (induction cells arbitrary: st) (simp_all add: draw_cell_no_demo)

text \<open>With the demonstration on, the glyph is drawn: a page of one cell holding one character.\<close>

lemma one_cell_page_with_demo:
  "generate_single_page_image [65] [26041, 26684] [] [] [] 1 1 [] True False =
     Inr \<lparr>grid_layer = [Rectangle 150 664 2330 2844 (0, 0, 0) 2],
          text_layer = [Glyph 1240 1754 65 (0, 0, 0, 110)]\<rparr>"
  by (simp add: generate_single_page_image_def Let_def PAGE_WIDTH_def PAGE_HEIGHT_def
      page_cells_def py_range_def draw_cell_def draw_grid_def draw_square_def
      get_grid_color_def get_text_color_def get_demo_alpha_def demo_alpha_mapping_def
      demo_rows_per_page_def)

text \<open>
  C6.  A page rendered with \<open>show_demo\<close> off, on a layout with at least one column and
  one row, is returned without a raise; its overlay received no glyph, so it stays fully
  transparent; its grid layer is the decoration of every cell in row order; and the
  page is the same whatever characters, text colour and tracing depth are supplied.
\<close>

theorem no_demo_no_glyphs:
  assumes "1 \<le> cols" and "1 \<le> rows"
  shows "\<exists>img.
           generate_single_page_image page_chars grid_type grid_color_name text_color_name
             demo_level cols rows font_path False blank = Inr img
         \<and> text_layer img = []
         \<and> grid_layer img =
             concat (map (\<lambda>rc.
                       draw_grid
                         ((PAGE_WIDTH - min (2180 div cols) (3008 div rows) * cols) div 2
                            + snd rc * min (2180 div cols) (3008 div rows))
                         ((PAGE_HEIGHT - min (2180 div cols) (3008 div rows) * rows) div 2
                            + fst rc * min (2180 div cols) (3008 div rows))
                         (min (2180 div cols) (3008 div rows))
                         grid_type (get_grid_color grid_color_name))
                     (page_cells rows cols))
         \<and> generate_single_page_image page_chars' grid_type grid_color_name
             text_color_name' demo_level' cols rows font_path' False blank = Inr img"
  using assms
  by (simp add: generate_single_page_image_def Let_def foldl_draw_cell_no_demo
      PAGE_WIDTH_def PAGE_HEIGHT_def)

theorem no_demo_no_glyphs_witness:
  "(1::int) \<le> 1 \<and> (1::int) \<le> 1
   \<and> (\<exists>img. generate_single_page_image [65] [26041, 26684] [] [] [] 1 1 [] False False
               = Inr img
           \<and> text_layer img = []
           \<and> grid_layer img = [Rectangle 150 664 2330 2844 (0, 0, 0) 2])"
proof -
  have h: "(1::int) \<le> 1" by simp
  from no_demo_no_glyphs [OF h h, of "[65]" "[26041, 26684]" "[]" "[]" "[]" "[]" False]
  obtain img where
    i: "generate_single_page_image [65] [26041, 26684] [] [] [] 1 1 [] False False = Inr img"
       "text_layer img = []"
    by blast
  from i(1) have "grid_layer img = [Rectangle 150 664 2330 2844 (0, 0, 0) 2]"
    by (auto simp add: generate_single_page_image_def Let_def PAGE_WIDTH_def
        PAGE_HEIGHT_def page_cells_def py_range_def draw_cell_def draw_grid_def
        draw_square_def get_grid_color_def)
  with i h show ?thesis by blast
qed

section \<open>Properties of the font resolver\<close>

lemma try_path_loads:
  assumes "font_loads env sz path"
  shows "\<exists>font family style.
           truetype env path sz = Some font
         \<and> try_path env sz path label =
             Some (font, \<lparr>info_path = path_str env path, info_family = family,
                          info_style = style, info_source = label\<rparr>)"
  using assms
  by (auto simp add: font_loads_def try_path_def split: option.splits)

lemma try_path_fails:
  assumes "\<not> font_loads env sz path"
  shows "try_path env sz path label = None"
  using assms
  by (auto simp add: font_loads_def try_path_def split: option.splits)

lemma labels_distinct:
  "user_label \<noteq> fallback_label fb"
  "user_label \<noteq> default_label"
  "fallback_label fb \<noteq> default_label"
  "fallback_label fb \<noteq> user_label"
  "default_label \<noteq> user_label"
  "default_label \<noteq> fallback_label fb"
  "fallback_label fb = fallback_label fb' \<longleftrightarrow> fb = fb'"
  by (simp_all add: user_label_def fallback_label_def default_label_def)

lemma fallbacks_distinct:
  "simkai \<noteq> simhei" "simkai \<noteq> msyh"
  "simhei \<noteq> msyh" "simhei \<noteq> simkai"
  "msyh \<noteq> simkai" "msyh \<noteq> simhei"
  by (simp_all add: simkai_def simhei_def msyh_def)

lemma load_font_requested:
  assumes "font_path \<noteq> []" "font_loads env sz font_path"
  shows "info_source (snd (load_font env font_path sz)) = user_label"
    and "truetype env font_path sz = Some (fst (load_font env font_path sz))"
    and "info_path (snd (load_font env font_path sz)) = path_str env font_path"
  using try_path_loads [OF assms(2), of user_label] assms(1)
  by (auto simp add: load_font_def)

lemma load_font_not_requested:
  assumes "\<not> (font_path \<noteq> [] \<and> font_loads env sz font_path)"
  shows "load_font env font_path sz =
           (case try_fallbacks env sz fallbacks of
              Some r \<Rightarrow> r
            | None \<Rightarrow>
                (load_default env,
                 \<lparr>info_path = default_path_label,
                  info_family = fst (case default_getname env of
                                       Some n \<Rightarrow> n
                                     | None \<Rightarrow> (default_label, [82, 101, 103, 117, 108, 97, 114])),
                  info_style = snd (case default_getname env of
                                      Some n \<Rightarrow> n
                                    | None \<Rightarrow> (default_label, [82, 101, 103, 117, 108, 97, 114])),
                  info_source = default_label\<rparr>))"
proof (cases "font_path = []")
  case True
  then show ?thesis by (simp add: load_font_def Let_def split: option.splits)
next
  case False
  with assms have "\<not> font_loads env sz font_path" by simp
  from try_path_fails [OF this] show ?thesis
    by (simp add: load_font_def Let_def split: option.splits)
qed

lemma load_font_first:
  assumes "\<not> (font_path \<noteq> [] \<and> font_loads env sz font_path)"
      and "font_loads env sz (simkai)"
  shows "info_source (snd (load_font env font_path sz)) = fallback_label (simkai)"
    and "truetype env (simkai) sz = Some (fst (load_font env font_path sz))"
proof -
  from try_path_loads [OF assms(2), of "fallback_label (simkai)"]
  obtain font family style where
    t: "truetype env (simkai) sz = Some font"
       "try_path env sz (simkai) (fallback_label (simkai)) =
          Some (font, \<lparr>info_path = path_str env (simkai), info_family = family,
                       info_style = style,
                       info_source = fallback_label (simkai)\<rparr>)"
    by blast
  have "try_fallbacks env sz [simkai, simhei, msyh] =
          Some (font, \<lparr>info_path = path_str env (simkai), info_family = family,
                       info_style = style,
                       info_source = fallback_label (simkai)\<rparr>)"
    by (simp add: t(2))
  then have r: "load_font env font_path sz =
          (font, \<lparr>info_path = path_str env (simkai), info_family = family,
                  info_style = style, info_source = fallback_label (simkai)\<rparr>)"
    unfolding load_font_not_requested [OF assms(1)] fallbacks_def [symmetric] by simp
  show "info_source (snd (load_font env font_path sz)) = fallback_label (simkai)"
    by (simp add: r)
  show "truetype env (simkai) sz = Some (fst (load_font env font_path sz))"
    by (simp add: r t(1))
qed

lemma load_font_second:
  assumes "\<not> (font_path \<noteq> [] \<and> font_loads env sz font_path)"
      and "\<not> font_loads env sz (simkai)"
      and "font_loads env sz (simhei)"
  shows "info_source (snd (load_font env font_path sz)) = fallback_label (simhei)"
    and "truetype env (simhei) sz = Some (fst (load_font env font_path sz))"
proof -
  from try_path_loads [OF assms(3), of "fallback_label (simhei)"]
  obtain font family style where
    t: "truetype env (simhei) sz = Some font"
       "try_path env sz (simhei) (fallback_label (simhei)) =
          Some (font, \<lparr>info_path = path_str env (simhei), info_family = family,
                       info_style = style,
                       info_source = fallback_label (simhei)\<rparr>)"
    by blast
  have "try_fallbacks env sz [simkai, simhei, msyh] =
          Some (font, \<lparr>info_path = path_str env (simhei), info_family = family,
                       info_style = style,
                       info_source = fallback_label (simhei)\<rparr>)"
    by (simp add: t(2) try_path_fails [OF assms(2)])
  then have r: "load_font env font_path sz =
          (font, \<lparr>info_path = path_str env (simhei), info_family = family,
                  info_style = style, info_source = fallback_label (simhei)\<rparr>)"
    unfolding load_font_not_requested [OF assms(1)] fallbacks_def [symmetric] by simp
  show "info_source (snd (load_font env font_path sz)) = fallback_label (simhei)"
    by (simp add: r)
  show "truetype env (simhei) sz = Some (fst (load_font env font_path sz))"
    by (simp add: r t(1))
qed

lemma load_font_third:
  assumes "\<not> (font_path \<noteq> [] \<and> font_loads env sz font_path)"
      and "\<not> font_loads env sz (simkai)"
      and "\<not> font_loads env sz (simhei)"
      and "font_loads env sz (msyh)"
  shows "info_source (snd (load_font env font_path sz)) = fallback_label (msyh)"
    and "truetype env (msyh) sz = Some (fst (load_font env font_path sz))"
proof -
  from try_path_loads [OF assms(4), of "fallback_label (msyh)"]
  obtain font family style where
    t: "truetype env (msyh) sz = Some font"
       "try_path env sz (msyh) (fallback_label (msyh)) =
          Some (font, \<lparr>info_path = path_str env (msyh), info_family = family,
                       info_style = style,
                       info_source = fallback_label (msyh)\<rparr>)"
    by blast
  have "try_fallbacks env sz [simkai, simhei, msyh] =
          Some (font, \<lparr>info_path = path_str env (msyh), info_family = family,
                       info_style = style,
                       info_source = fallback_label (msyh)\<rparr>)"
    by (simp add: t(2) try_path_fails [OF assms(2)] try_path_fails [OF assms(3)])
  then have r: "load_font env font_path sz =
          (font, \<lparr>info_path = path_str env (msyh), info_family = family,
                  info_style = style, info_source = fallback_label (msyh)\<rparr>)"
    unfolding load_font_not_requested [OF assms(1)] fallbacks_def [symmetric] by simp
  show "info_source (snd (load_font env font_path sz)) = fallback_label (msyh)"
    by (simp add: r)
  show "truetype env (msyh) sz = Some (fst (load_font env font_path sz))"
    by (simp add: r t(1))
qed

lemma load_font_default:
  assumes "\<not> (font_path \<noteq> [] \<and> font_loads env sz font_path)"
      and "\<not> font_loads env sz (simkai)"
      and "\<not> font_loads env sz (simhei)"
      and "\<not> font_loads env sz (msyh)"
  shows "info_source (snd (load_font env font_path sz)) = default_label"
    and "fst (load_font env font_path sz) = load_default env"
    and "info_path (snd (load_font env font_path sz)) = default_path_label"
proof -
  have "try_fallbacks env sz [simkai, simhei, msyh] = None"
    by (simp add: try_path_fails [OF assms(2)] try_path_fails [OF assms(3)]
        try_path_fails [OF assms(4)])
  then have r: "try_fallbacks env sz fallbacks = None"
    unfolding fallbacks_def [symmetric] .
  show "info_source (snd (load_font env font_path sz)) = default_label"
    and "fst (load_font env font_path sz) = load_default env"
    and "info_path (snd (load_font env font_path sz)) = default_path_label"
    unfolding load_font_not_requested [OF assms(1)] by (simp_all add: r)
qed

text \<open>
  C8.  \<open>load_font\<close> returns a handle and its metadata for every path and size, every
  raise of the library being caught.  The source label tells which step gave the font:
  the label of the user's choice exactly when the requested path is not empty and
  loads; the label of a fallback exactly when the request did not give a font, the
  fallbacks before it in the list simkai.ttf, simhei.ttf, msyh.ttc do not load and it
  does; the label of the built-in font exactly when nothing loads.  The handle is the
  font opened at that step, or the built-in font.
\<close>

theorem load_font_resolution:
  "(let r = load_font env font_path sz;
        src = info_source (snd r);
        requested = (font_path \<noteq> [] \<and> font_loads env sz font_path);
        kai = font_loads env sz simkai;
        hei = font_loads env sz simhei;
        ms = font_loads env sz msyh
    in fallbacks = [simkai, simhei, msyh]
     \<and> (src = user_label \<longleftrightarrow> requested)
     \<and> (src = fallback_label simkai \<longleftrightarrow> \<not> requested \<and> kai)
     \<and> (src = fallback_label simhei \<longleftrightarrow> \<not> requested \<and> \<not> kai \<and> hei)
     \<and> (src = fallback_label msyh \<longleftrightarrow> \<not> requested \<and> \<not> kai \<and> \<not> hei \<and> ms)
     \<and> (src = default_label \<longleftrightarrow> \<not> requested \<and> \<not> kai \<and> \<not> hei \<and> \<not> ms)
     \<and> (src = user_label \<longrightarrow>
           truetype env font_path sz = Some (fst r)
         \<and> info_path (snd r) = path_str env font_path)
     \<and> (src = fallback_label simkai \<longrightarrow> truetype env simkai sz = Some (fst r))
     \<and> (src = fallback_label simhei \<longrightarrow> truetype env simhei sz = Some (fst r))
     \<and> (src = fallback_label msyh \<longrightarrow> truetype env msyh sz = Some (fst r))
     \<and> (src = default_label \<longrightarrow>
           fst r = load_default env \<and> info_path (snd r) = default_path_label))"
proof -
  let ?req = "font_path \<noteq> [] \<and> font_loads env sz font_path"
  consider (requested) "?req"
    | (kai) "\<not> ?req" "font_loads env sz simkai"
    | (hei) "\<not> ?req" "\<not> font_loads env sz simkai" "font_loads env sz simhei"
    | (ms) "\<not> ?req" "\<not> font_loads env sz simkai" "\<not> font_loads env sz simhei"
           "font_loads env sz msyh"
    | (none) "\<not> ?req" "\<not> font_loads env sz simkai" "\<not> font_loads env sz simhei"
           "\<not> font_loads env sz msyh"
    by blast
  then show ?thesis
  proof cases
    case requested
    then have p: "font_path \<noteq> []" "font_loads env sz font_path" by simp_all
    from load_font_requested [OF p] requested show ?thesis
      unfolding Let_def by (simp add: labels_distinct fallbacks_def)
  next
    case kai
    from load_font_first [OF kai] kai show ?thesis
      unfolding Let_def by (simp add: labels_distinct fallbacks_distinct fallbacks_def)
  next
    case hei
    from load_font_second [OF hei] hei show ?thesis
      unfolding Let_def by (simp add: labels_distinct fallbacks_distinct fallbacks_def)
  next
    case ms
    from load_font_third [OF ms] ms show ?thesis
      unfolding Let_def by (simp add: labels_distinct fallbacks_distinct fallbacks_def)
  next
    case none
    from load_font_default [OF none] none show ?thesis
      unfolding Let_def by (simp add: labels_distinct fallbacks_def)
  qed
qed

lemma only_simhei_loads:
  "\<not> font_loads only_simhei_env 40 [120]"
  "\<not> font_loads only_simhei_env 40 simkai"
  "font_loads only_simhei_env 40 simhei"
  "truetype only_simhei_env simhei 40 = Some 7"
  by (simp_all add: font_loads_def only_simhei_env_def simkai_def simhei_def)

lemma no_font_loads: "\<not> font_loads no_font_env sz path"
  by (simp add: font_loads_def no_font_env_def)

theorem load_font_resolution_witness:
  "\<not> font_loads only_simhei_env 40 [120]
   \<and> \<not> font_loads only_simhei_env 40 simkai
   \<and> font_loads only_simhei_env 40 simhei
   \<and> info_source (snd (load_font only_simhei_env [120] 40)) = fallback_label simhei
   \<and> fst (load_font only_simhei_env [120] 40) = 7
   \<and> info_source (snd (load_font no_font_env [120] 40)) = default_label
   \<and> fst (load_font no_font_env [120] 40) = load_default no_font_env
   \<and> info_path (snd (load_font no_font_env [120] 40)) = default_path_label"
proof -
  have a: "info_source (snd (load_font only_simhei_env [120] 40)) = fallback_label simhei"
    using load_font_resolution [of only_simhei_env "[120]" 40]
    unfolding Let_def by (simp add: only_simhei_loads)
  have "truetype only_simhei_env simhei 40 = Some (fst (load_font only_simhei_env [120] 40))"
    using load_font_resolution [of only_simhei_env "[120]" 40] a
    unfolding Let_def by blast
  then have b: "fst (load_font only_simhei_env [120] 40) = 7"
    by (simp add: only_simhei_loads)
  have c: "info_source (snd (load_font no_font_env [120] 40)) = default_label"
    using load_font_resolution [of no_font_env "[120]" 40]
    unfolding Let_def by (simp add: no_font_loads)
  have d: "fst (load_font no_font_env [120] 40) = load_default no_font_env
         \<and> info_path (snd (load_font no_font_env [120] 40)) = default_path_label"
    using load_font_resolution [of no_font_env "[120]" 40] c
    unfolding Let_def by blast
  from a b c d only_simhei_loads(1-3) show ?thesis by simp
qed

section \<open>Properties of the corpus loader\<close>

lemma poems_as_text_unknown:
  assumes "datasets self target = None"
  shows "poems_as_text self env target = (Inr [], [not_included_message target])"
  using assms by (simp add: poems_as_text_def)

lemma body_extractor_unknown:
  assumes "datasets self target = None"
  shows "body_extractor self env target = (Inr None, [not_included_message target])"
  using assms by (simp add: body_extractor_def)

lemma loader_missing_path:
  assumes "datasets self target = Some configs"
      and "fs env (os_path_join (top_level_path self) (ds_path configs)) = None"
  shows "poems_as_text self env target = (Inl FileNotFoundError, [])"
    and "body_extractor self env target = (Inl FileNotFoundError, [])"
  using assms
  by (simp_all add: poems_as_text_def body_extractor_def Let_def isfile_def listdir_def)

lemma ascii_names:
  "ascii ''tang'' = [116, 97, 110, 103]"
  "ascii ''song'' = [115, 111, 110, 103]"
  "ascii ''tang.json'' = [116, 97, 110, 103, 46, 106, 115, 111, 110]"
  "ascii ''./chinese-poetry/'' =
     [46, 47, 99, 104, 105, 110, 101, 115, 101, 45, 112, 111, 101, 116, 114, 121, 47]"
  "ascii ''./chinese-poetry/tang.json'' =
     [46, 47, 99, 104, 105, 110, 101, 115, 101, 45, 112, 111, 101, 116, 114, 121, 47,
      116, 97, 110, 103, 46, 106, 115, 111, 110]"
  by (simp_all add: ascii_def)

lemma example_registry:
  "datasets example_loader (ascii ''song'') = None"
  "datasets example_loader (ascii ''tang'') =
     Some \<lparr>ds_path = ascii ''tang.json'', ds_tag = ascii ''paragraphs'', ds_excludes = None\<rparr>"
  "os_path_join (top_level_path example_loader) (ascii ''tang.json'') =
     ascii ''./chinese-poetry/tang.json''"
  "fs empty_env (ascii ''./chinese-poetry/tang.json'') = None"
  by (simp_all add: example_loader_def empty_env_def os_path_join_def ascii_names)

text \<open>Where the file is present, the loader returns the poem: header line, then the paragraphs that are not blank.\<close>

lemma example_one_poem:
  "poems_as_text example_loader one_poem_env (ascii ''tang'') =
     (Inr [[84, 183, 65, 10, 97, 98, 10, 99]], [])"
proof -
  have content: "fs one_poem_env (ascii ''./chinese-poetry/tang.json'') =
          Some (File (Some (JArr
            [JObj [(ascii ''title'', JStr [84]),
                   (ascii ''author'', JStr [65]),
                   (ascii ''paragraphs'', JArr [JStr [97, 98], JStr [32], JStr [99]])]])))"
    by (simp add: one_poem_env_def)
  have keys: "ascii ''paragraphs'' \<noteq> ascii ''title''" "ascii ''paragraphs'' \<noteq> ascii ''author''"
    "ascii ''title'' \<noteq> ascii ''author''" "ascii ''rhythmic'' \<noteq> ascii ''title''"
    "ascii ''rhythmic'' \<noteq> ascii ''author''" "ascii ''rhythmic'' \<noteq> ascii ''paragraphs''"
    "ascii ''chapter'' \<noteq> ascii ''title''" "ascii ''chapter'' \<noteq> ascii ''author''"
    "ascii ''chapter'' \<noteq> ascii ''paragraphs''" "ascii ''section'' \<noteq> ascii ''title''"
    "ascii ''section'' \<noteq> ascii ''author''" "ascii ''section'' \<noteq> ascii ''paragraphs''"
    "ascii ''author'' \<noteq> ascii ''title''" "ascii ''author'' \<noteq> ascii ''paragraphs''"
    by (simp_all add: ascii_def)
  have strip: "py_strip [97, 98] = [97, 98]" "py_strip [32] = []" "py_strip [99] = [99]"
    by (simp_all add: py_strip_def py_isspace_def)
  show ?thesis
    by (simp add: poems_as_text_def example_registry Let_def isfile_def content
        collect_from_file_def load_json_def py_iter_def dict_get_def poem_text_def
        poem_title_def poem_field_def format_value_def keys strip)
qed

text \<open>
  C9, as amended.  For a dataset identifier that the registry does not hold,
  \<open>poems_as_text\<close> returns the empty list and prints one warning line.  For a
  registered dataset whose path does not exist, \<open>poems_as_text\<close> and
  \<open>body_extractor\<close> raise \<open>FileNotFoundError\<close> and print nothing.
\<close>

theorem loader_unavailable_dataset:
  "(datasets self target = None \<longrightarrow>
      poems_as_text self env target = (Inr [], [not_included_message target]))
   \<and> (datasets self target = Some configs
        \<and> fs env (os_path_join (top_level_path self) (ds_path configs)) = None \<longrightarrow>
      poems_as_text self env target = (Inl FileNotFoundError, [])
      \<and> body_extractor self env target = (Inl FileNotFoundError, []))"
  using poems_as_text_unknown loader_missing_path by blast

theorem loader_unavailable_dataset_witness:
  "datasets example_loader (ascii ''song'') = None
   \<and> poems_as_text example_loader empty_env (ascii ''song'') =
       (Inr [], [not_included_message (ascii ''song'')])
   \<and> datasets example_loader (ascii ''tang'') =
       Some \<lparr>ds_path = ascii ''tang.json'', ds_tag = ascii ''paragraphs'', ds_excludes = None\<rparr>
   \<and> fs empty_env (os_path_join (top_level_path example_loader) (ascii ''tang.json'')) = None
   \<and> poems_as_text example_loader empty_env (ascii ''tang'') = (Inl FileNotFoundError, [])
   \<and> body_extractor example_loader empty_env (ascii ''tang'') = (Inl FileNotFoundError, [])"
proof -
  have m: "fs empty_env (os_path_join (top_level_path example_loader) (ascii ''tang.json'')) = None"
    by (simp add: example_registry)
  from loader_unavailable_dataset [of example_loader "ascii ''song''" empty_env]
  have a: "poems_as_text example_loader empty_env (ascii ''song'') =
             (Inr [], [not_included_message (ascii ''song'')])"
    by (simp add: example_registry)
  from loader_unavailable_dataset [of example_loader "ascii ''tang''" empty_env
      "\<lparr>ds_path = ascii ''tang.json'', ds_tag = ascii ''paragraphs'', ds_excludes = None\<rparr>"]
  have b: "poems_as_text example_loader empty_env (ascii ''tang'') = (Inl FileNotFoundError, [])
         \<and> body_extractor example_loader empty_env (ascii ''tang'') = (Inl FileNotFoundError, [])"
    using m by (simp add: example_registry)
  from a b m example_registry(1,2) show ?thesis by simp
qed

text \<open>
  The claim as stated fails where the corpus was never fetched: the dataset tang is
  registered, its file is absent, and \<open>poems_as_text\<close> raises instead of returning the
  empty list with a warning.
\<close>

theorem poems_as_text_raises_on_missing_file:
  "datasets example_loader (ascii ''tang'') =
     Some \<lparr>ds_path = ascii ''tang.json'', ds_tag = ascii ''paragraphs'', ds_excludes = None\<rparr>
   \<and> fs empty_env (ascii ''./chinese-poetry/tang.json'') = None
   \<and> poems_as_text example_loader empty_env (ascii ''tang'') = (Inl FileNotFoundError, [])"
  using loader_missing_path(1) [of example_loader "ascii ''tang''"
      "\<lparr>ds_path = ascii ''tang.json'', ds_tag = ascii ''paragraphs'', ds_excludes = None\<rparr>"
      empty_env]
  by (simp add: example_registry)

end
